theory Spec2Isabelle
  imports Main
begin

section \<open>JSON values and the JavaScript operations applied to them\<close>

text \<open>
  A parsed JSON document. An object is the list of its own properties; a property is
  looked up with \<open>map_of\<close>. Numbers are kept to the integers: no claim reads one.
\<close>

datatype json =
    JNull
  | JBool bool
  | JNum int
  | JStr string
  | JArr "json list"
  | JObj "(string \<times> json) list"

text \<open>
  A JavaScript value that came out of a parsed document is \<open>Some j\<close>; \<open>None\<close> is
  \<open>undefined\<close>.
\<close>

type_synonym jsval = "json option"

datatype js_error = NetworkError | SyntaxError | TypeError

text \<open>
  Property access \<open>v.k\<close>. Reading a property of \<open>undefined\<close> or \<open>null\<close> throws a
  TypeError; an object gives the property or \<open>undefined\<close>; every other value gives
  \<open>undefined\<close>. The code reads the names \<open>data\<close>, \<open>user\<close> and \<open>role\<close> only, which no
  built-in prototype of a string, number, boolean or array defines.
\<close>

fun get_prop :: "jsval \<Rightarrow> string \<Rightarrow> js_error + jsval" where
  "get_prop None k = Inl TypeError"
| "get_prop (Some JNull) k = Inl TypeError"
| "get_prop (Some (JObj kvs)) k = Inr (map_of kvs k)"
| "get_prop (Some (JBool b)) k = Inr None"
| "get_prop (Some (JNum n)) k = Inr None"
| "get_prop (Some (JStr s)) k = Inr None"
| "get_prop (Some (JArr xs)) k = Inr None"

section \<open>HTTP as the client sees it\<close>

text \<open>
  A response: its status line and its body. \<open>body = None\<close> is a body that is not JSON
  text, on which \<open>response.json()\<close> rejects with a SyntaxError.
\<close>

record http_response =
  status :: nat
  body :: "json option"

text \<open>\<open>response.ok\<close>: the status is in the range 200 to 299.\<close>

definition ok :: "http_response \<Rightarrow> bool" where
  "ok r = (200 \<le> status r \<and> status r \<le> 299)"

definition response_json :: "http_response \<Rightarrow> js_error + json" where
  "response_json r = (case body r of None \<Rightarrow> Inl SyntaxError | Some d \<Rightarrow> Inr d)"

record request =
  url :: string
  authorization :: string

text \<open>\<open>fetch\<close> settles: it rejects (network failure) or resolves with a response.\<close>

datatype fetch_result = Rejects js_error | Resolves http_response

section \<open>The protected-page template (fix-auth-template.js)\<close>

text \<open>
  One run of the asynchronous function, from its call to its completion, with the two
  awaited results supplied by \<open>fetch\<close>. What the run leaves behind: the contents of
  \<open>localStorage\<close>, the target of \<open>window.location.replace\<close> when it was called, the
  messages shown by \<open>alert\<close>, the errors passed to \<open>console.error\<close>, and the requests
  handed to \<open>fetch\<close>. \<open>localStorage.setItem\<close> is taken to succeed (no storage quota).
\<close>

record run =
  storage :: "string \<rightharpoonup> string"
  redirect :: "string option"
  alerts :: "string list"
  console :: "js_error list"
  requests :: "request list"

definition start :: "(string \<rightharpoonup> string) \<Rightarrow> run" where
  "start st = \<lparr>storage = st, redirect = None, alerts = [], console = [], requests = []\<rparr>"

definition getItem :: "run \<Rightarrow> string \<Rightarrow> string option" where
  "getItem w k = storage w k"

definition setItem :: "string \<Rightarrow> string \<Rightarrow> run \<Rightarrow> run" where
  "setItem k v w = w\<lparr>storage := (storage w)(k \<mapsto> v)\<rparr>"

definition clear :: "run \<Rightarrow> run" where
  "clear w = w\<lparr>storage := Map.empty\<rparr>"

definition location_replace :: "string \<Rightarrow> run \<Rightarrow> run" where
  "location_replace target w = w\<lparr>redirect := Some target\<rparr>"

definition alert :: "string \<Rightarrow> run \<Rightarrow> run" where
  "alert msg w = w\<lparr>alerts := alerts w @ [msg]\<rparr>"

definition console_error :: "js_error \<Rightarrow> run \<Rightarrow> run" where
  "console_error e w = w\<lparr>console := console w @ [e]\<rparr>"

definition send :: "request \<Rightarrow> run \<Rightarrow> run" where
  "send req w = w\<lparr>requests := requests w @ [req]\<rparr>"

text \<open>The \<open>catch\<close> block: log, clear the storage, go to the login page.\<close>

definition catch_handler :: "js_error \<Rightarrow> run \<Rightarrow> run" where
  "catch_handler e w = location_replace ''login.html'' (clear (console_error e w))"

text \<open>The request of the template: \<open>GET BASE_URL/auth/me\<close> with the bearer token.\<close>

definition me_request :: "string \<Rightarrow> string \<Rightarrow> request" where
  "me_request base_url token =
     \<lparr>url = base_url @ ''/auth/me'', authorization = ''Bearer '' @ token\<rparr>"

definition denied_message :: "string \<Rightarrow> string" where
  "denied_message expected_role = ''Access denied. '' @ expected_role @ '' role required.''"

text \<open>
  The body of the \<open>try\<close> block after \<open>fetch\<close> has resolved with \<open>response\<close>. The
  placeholder \<open>EXPECTED_ROLE\<close> of the template is the parameter \<open>expected_role\<close>;
  \<open>JSON.stringify\<close> is the parameter \<open>stringify\<close>. \<open>user.role !== 'EXPECTED_ROLE'\<close> is
  strict: only the string itself is equal to it. The last case of \<open>user\<close> stores what
  \<open>setItem\<close> makes of \<open>undefined\<close>; reading \<open>user.role\<close> has thrown before it.
\<close>

definition on_response ::
  "string \<Rightarrow> (json \<Rightarrow> string) \<Rightarrow> http_response \<Rightarrow> run \<Rightarrow> run" where
  "on_response expected_role stringify response w =
     (if \<not> ok response then location_replace ''login.html'' (clear w)
      else
        (case response_json response of
           Inl e \<Rightarrow> catch_handler e w
         | Inr data \<Rightarrow>
             (case get_prop (Some data) ''data'' of
                Inl e \<Rightarrow> catch_handler e w
              | Inr d \<Rightarrow>
                  (case get_prop d ''user'' of
                     Inl e \<Rightarrow> catch_handler e w
                   | Inr user \<Rightarrow>
                       (case get_prop user ''role'' of
                          Inl e \<Rightarrow> catch_handler e w
                        | Inr r \<Rightarrow>
                            if r \<noteq> Some (JStr expected_role)
                            then location_replace ''login.html''
                                   (clear (alert (denied_message expected_role) w))
                            else
                              (case user of
                                 Some u \<Rightarrow> setItem ''userCache'' (stringify u) w
                               | None \<Rightarrow> setItem ''userCache'' ''undefined'' w))))))"

text \<open>
  The whole function. \<open>!token\<close> holds for \<open>null\<close> (no such key) and for the empty
  string. \<open>API_CONFIG.BASE_URL\<close> is the parameter \<open>base_url\<close>.
\<close>

definition auth_gate ::
  "string \<Rightarrow> string \<Rightarrow> (json \<Rightarrow> string) \<Rightarrow> (request \<Rightarrow> fetch_result) \<Rightarrow>
   (string \<rightharpoonup> string) \<Rightarrow> run" where
  "auth_gate base_url expected_role stringify fetch st =
     (let w = start st in
      case getItem w ''token'' of
        None \<Rightarrow> location_replace ''login.html'' w
      | Some token \<Rightarrow>
          if token = [] then location_replace ''login.html'' w
          else
            (let req = me_request base_url token; w1 = send req w in
             case fetch req of
               Rejects e \<Rightarrow> catch_handler e w1
             | Resolves response \<Rightarrow> on_response expected_role stringify response w1))"

text \<open>
  The states of the gate. A run that called \<open>window.location.replace\<close> ends in
  \<open>Redirecting\<close>; a run that returned without it ends in \<open>Authorized\<close>.
\<close>

datatype gate_state = Checking | Authorized | Redirecting

definition gate_state_of :: "run \<Rightarrow> gate_state" where
  "gate_state_of w = (case redirect w of Some target \<Rightarrow> Redirecting | None \<Rightarrow> Authorized)"

text \<open>
  The function is \<open>async\<close>: a call runs its body up to the first \<open>await\<close> and then
  returns to the caller, here the page that holds the script; the rest of the body
  runs when the awaited \<open>fetch\<close> has settled. \<open>Completed\<close> is a call that returned at
  a \<open>return\<close> before the \<open>await\<close>; \<open>Pending\<close> is a call that returned at
  \<open>await fetch(...)\<close>, with the request it sent and what it has done so far. The
  second \<open>await\<close>, of \<open>response.json()\<close>, lies in the resumed part.
\<close>

datatype gate_call = Completed run | Pending request run

definition auth_gate_call :: "string \<Rightarrow> (string \<rightharpoonup> string) \<Rightarrow> gate_call" where
  "auth_gate_call base_url st =
     (let w = start st in
      case getItem w ''token'' of
        None \<Rightarrow> Completed (location_replace ''login.html'' w)
      | Some token \<Rightarrow>
          if token = [] then Completed (location_replace ''login.html'' w)
          else
            (let req = me_request base_url token in Pending req (send req w)))"

definition auth_gate_resume ::
  "string \<Rightarrow> (json \<Rightarrow> string) \<Rightarrow> fetch_result \<Rightarrow> run \<Rightarrow> run" where
  "auth_gate_resume expected_role stringify settled w =
     (case settled of
        Rejects e \<Rightarrow> catch_handler e w
      | Resolves response \<Rightarrow> on_response expected_role stringify response w)"

text \<open>
  The state of the gate when the call returns to the page: \<open>Checking\<close> while the
  request is pending, and the state of the run when the call has completed.
\<close>

definition call_state :: "gate_call \<Rightarrow> gate_state" where
  "call_state c = (case c of Pending req w \<Rightarrow> Checking | Completed w \<Rightarrow> gate_state_of w)"

section \<open>The session endpoint (auth.controller.js, \<open>GET /auth/me\<close>)\<close>

text \<open>
  A user document of the identity store: its fields by name, each as it serialises. A
  field the document does not have reads as \<open>undefined\<close>.
\<close>

type_synonym document = "string \<rightharpoonup> json"

text \<open>\<open>req.user\<close>: what the middleware took out of the verified token.\<close>

record jwt_payload =
  userId :: string
  email :: string
  role :: string

text \<open>\<open>.select('-password')\<close>: the document without its password field.\<close>

definition select_minus_password :: "document \<Rightarrow> document" where
  "select_minus_password d = d(''password'' := None)"

text \<open>
  The object literal that \<open>getMe\<close> builds from the document. Spreading
  \<open>cond && {...}\<close> adds the properties when \<open>cond\<close> holds and nothing otherwise.
\<close>

definition user_view :: "document \<Rightarrow> (string \<times> jsval) list" where
  "user_view user =
     [(''id'', user ''_id''),
      (''name'', user ''name''),
      (''email'', user ''email''),
      (''role'', user ''role''),
      (''phone'', user ''phone''),
      (''address'', user ''address''),
      (''createdAt'', user ''createdAt'')]
     @ (if user ''role'' = Some (JStr ''pharmacy'')
        then [(''pharmacyName'', user ''pharmacyName''),
              (''licenseNumber'', user ''licenseNumber'')]
        else [])
     @ (if user ''role'' = Some (JStr ''delivery'')
        then [(''firstName'', user ''firstName''),
              (''vehicleType'', user ''vehicleType'')]
        else [])"

text \<open>Serialising an object leaves out the properties whose value is \<open>undefined\<close>.\<close>

definition serialise :: "(string \<times> jsval) list \<Rightarrow> json" where
  "serialise props = JObj (List.map_filter (\<lambda>(k, v). map_option (Pair k) v) props)"

text \<open>
  Modelled from the spec: the helpers \<open>errorResponse\<close> and \<open>successResponse\<close> (the
  response utilities of the backend, which the controller calls). A failure is
  the given status with the body \<open>{success: false, message}\<close>; a success is status 200
  with the body \<open>{success: true, message, data}\<close>.
\<close>

definition errorResponse :: "string \<Rightarrow> nat \<Rightarrow> http_response" where
  "errorResponse msg code =
     \<lparr>status = code, body = Some (JObj [(''success'', JBool False), (''message'', JStr msg)])\<rparr>"

definition successResponse :: "string \<Rightarrow> json \<Rightarrow> http_response" where
  "successResponse msg payload =
     \<lparr>status = 200,
      body = Some (JObj [(''success'', JBool True), (''message'', JStr msg),
                         (''data'', payload)])\<rparr>"

text \<open>
  The controller. \<open>findById\<close> is the lookup of the identity store: it throws (\<open>Inl\<close>),
  or gives \<open>null\<close> (\<open>None\<close>) or the document. \<open>Inl e\<close> of the result is \<open>next(error)\<close>.
\<close>

definition getMe :: "(string \<Rightarrow> 'e + document option) \<Rightarrow> jwt_payload \<Rightarrow> 'e + http_response" where
  "getMe findById req_user =
     (case findById (userId req_user) of
        Inl e \<Rightarrow> Inl e
      | Inr None \<Rightarrow> Inr (errorResponse ''User not found'' 404)
      | Inr (Some d) \<Rightarrow>
          (let user = select_minus_password d in
           Inr (successResponse ''User profile retrieved''
                  (JObj [(''user'', serialise (user_view user))]))))"

text \<open>The failures of the token check.\<close>

datatype verify_failure = Malformed | SignatureInvalid | Expired



section \<open>Example values\<close>

text \<open>
  A browser storage with a token, a stale cache and an unrelated key; the document
  and the response of the example in the migration notes; a token check and an
  identity store for three credentials.
\<close>

definition example_storage :: "string \<rightharpoonup> string" where
  "example_storage = [''token'' \<mapsto> ''abc'', ''userCache'' \<mapsto> ''stale'', ''cart'' \<mapsto> ''[]'']"

definition example_user :: "(string \<times> json) list" where
  "example_user =
     [(''id'', JStr ''60d5f4''), (''name'', JStr ''John Doe''),
      (''email'', JStr ''john@example.com''), (''role'', JStr ''pharmacy''),
      (''pharmacyName'', JStr ''HealthCare Pharmacy''), (''licenseNumber'', JStr ''PH12345'')]"

definition example_success :: http_response where
  "example_success =
     successResponse ''User profile retrieved'' (JObj [(''user'', JObj example_user)])"

definition example_document :: document where
  "example_document =
     [''_id'' \<mapsto> JStr ''60d5f4'', ''name'' \<mapsto> JStr ''John Doe'',
      ''email'' \<mapsto> JStr ''john@example.com'', ''role'' \<mapsto> JStr ''pharmacy'',
      ''password'' \<mapsto> JStr ''bcrypt-hash'', ''firstName'' \<mapsto> JStr ''John'',
      ''pharmacyName'' \<mapsto> JStr ''HealthCare Pharmacy'', ''licenseNumber'' \<mapsto> JStr ''PH12345'']"

definition example_findById :: "string \<Rightarrow> unit + document option" where
  "example_findById i = (if i = ''60d5f4'' then Inr (Some example_document) else Inr None)"

definition example_verify :: "string \<Rightarrow> verify_failure + jwt_payload" where
  "example_verify c =
     (if c = ''good'' then Inr \<lparr>userId = ''60d5f4'', email = ''john@example.com'', role = ''pharmacy''\<rparr>
      else if c = ''deleted'' then Inr \<lparr>userId = ''gone'', email = ''old@example.com'', role = ''admin''\<rparr>
      else if c = ''expired'' then Inl Expired
      else Inl Malformed)"


lemmas example_defs =
  example_storage_def example_user_def example_success_def example_document_def
  example_findById_def example_verify_def

section \<open>The runs of the client gate\<close>

lemmas effects_defs =
  start_def getItem_def setItem_def clear_def location_replace_def alert_def
  console_error_def send_def catch_handler_def

lemma gate_effects_token_only:
  assumes "st1 ''token'' = st2 ''token''"
  shows "redirect (auth_gate b e s f st1) = redirect (auth_gate b e s f st2)
       \<and> alerts (auth_gate b e s f st1) = alerts (auth_gate b e s f st2)
       \<and> console (auth_gate b e s f st1) = console (auth_gate b e s f st2)
       \<and> requests (auth_gate b e s f st1) = requests (auth_gate b e s f st2)"
  using assms
  by (simp add: auth_gate_def on_response_def effects_defs Let_def
           split: option.splits sum.splits fetch_result.splits)

lemma gate_with_token:
  assumes "st ''token'' = Some token" "token \<noteq> []"
  shows "auth_gate base_url expected_role stringify fetch st =
     (case fetch (me_request base_url token) of
        Rejects e \<Rightarrow> catch_handler e (send (me_request base_url token) (start st))
      | Resolves response \<Rightarrow>
          on_response expected_role stringify response
            (send (me_request base_url token) (start st)))"
proof -
  have "storage (start st) ''token'' = Some token"
    using assms by (simp add: start_def)
  then show ?thesis
    using assms by (simp add: auth_gate_def getItem_def Let_def)
qed

lemma gate_fetch_rejects:
  assumes "st ''token'' = Some token" and "token \<noteq> []"
    and "fetch (me_request base_url token) = Rejects e"
  shows "auth_gate base_url expected_role stringify fetch st =
           \<lparr>storage = Map.empty, redirect = Some ''login.html'', alerts = [], console = [e],
            requests = [me_request base_url token]\<rparr>"
  using assms by (simp add: gate_with_token effects_defs)

lemma gate_not_ok:
  assumes "st ''token'' = Some token" and "token \<noteq> []"
    and "fetch (me_request base_url token) = Resolves response" and "\<not> ok response"
  shows "auth_gate base_url expected_role stringify fetch st =
           \<lparr>storage = Map.empty, redirect = Some ''login.html'', alerts = [], console = [],
            requests = [me_request base_url token]\<rparr>"
  using assms by (simp add: gate_with_token on_response_def effects_defs)

lemma gate_role_mismatch:
  assumes "st ''token'' = Some token" and "token \<noteq> []"
    and "fetch (me_request base_url token) = Resolves response" and "ok response"
    and "body response = Some data"
    and "get_prop (Some data) ''data'' = Inr d"
    and "get_prop d ''user'' = Inr user"
    and "get_prop user ''role'' = Inr r"
    and "r \<noteq> Some (JStr expected_role)"
  shows "auth_gate base_url expected_role stringify fetch st =
           \<lparr>storage = Map.empty, redirect = Some ''login.html'',
            alerts = [denied_message expected_role], console = [],
            requests = [me_request base_url token]\<rparr>"
  using assms
  by (simp add: gate_with_token on_response_def response_json_def effects_defs)

lemma gate_role_match:
  assumes "st ''token'' = Some token" and "token \<noteq> []"
    and "fetch (me_request base_url token) = Resolves response" and "ok response"
    and "body response = Some data"
    and "get_prop (Some data) ''data'' = Inr d"
    and "get_prop d ''user'' = Inr (Some u)"
    and "get_prop (Some u) ''role'' = Inr (Some (JStr expected_role))"
  shows "auth_gate base_url expected_role stringify fetch st =
           \<lparr>storage = st(''userCache'' \<mapsto> stringify u), redirect = None, alerts = [],
            console = [], requests = [me_request base_url token]\<rparr>"
  using assms
  by (simp add: gate_with_token on_response_def response_json_def effects_defs)

lemma example_token: "example_storage ''token'' = Some ''abc''"
  by (simp add: example_storage_def)

lemma example_success_ok: "ok example_success"
  by (simp add: example_success_def successResponse_def ok_def)

lemma example_success_body:
  "body example_success =
     Some (JObj [(''success'', JBool True), (''message'', JStr ''User profile retrieved''),
                 (''data'', JObj [(''user'', JObj example_user)])])"
  by (simp add: example_success_def successResponse_def)

lemma example_user_role: "map_of example_user ''role'' = Some (JStr ''pharmacy'')"
  by (simp add: example_user_def)

lemma not_found_not_ok: "\<not> ok (errorResponse msg 404)"
  by (simp add: errorResponse_def ok_def)

lemma auth_gate_split:
  "auth_gate base_url expected_role stringify fetch st =
     (case auth_gate_call base_url st of
        Completed w \<Rightarrow> w
      | Pending req w \<Rightarrow> auth_gate_resume expected_role stringify (fetch req) w)"
  by (simp add: auth_gate_def auth_gate_call_def auth_gate_resume_def Let_def
        split: option.splits fetch_result.splits)

lemma call_with_token:
  assumes "st ''token'' = Some token" and "token \<noteq> []"
  shows "auth_gate_call base_url st =
           Pending (me_request base_url token)
             \<lparr>storage = st, redirect = None, alerts = [], console = [],
              requests = [me_request base_url token]\<rparr>"
  using assms by (simp add: auth_gate_call_def effects_defs Let_def)

lemma call_never_authorized:
  "call_state (auth_gate_call base_url st) \<noteq> Authorized"
  by (simp add: auth_gate_call_def call_state_def gate_state_of_def effects_defs Let_def
        split: option.splits)

lemma on_response_authorized:
  assumes "gate_state_of (on_response expected_role stringify response w) = Authorized"
    and "redirect w = None"
  shows "ok response \<and> (\<exists>data d u. body response = Some data
           \<and> get_prop (Some data) ''data'' = Inr d
           \<and> get_prop d ''user'' = Inr (Some u)
           \<and> get_prop (Some u) ''role'' = Inr (Some (JStr expected_role)))"
proof -
  have okr: "ok response"
    using assms by (auto simp add: on_response_def effects_defs gate_state_of_def split: if_splits)
  then obtain data where data: "body response = Some data"
    using assms
    by (cases "body response")
       (auto simp add: on_response_def response_json_def effects_defs gate_state_of_def)
  obtain d where d: "get_prop (Some data) ''data'' = Inr d"
    using assms okr data
    by (cases "get_prop (Some data) ''data''")
       (auto simp add: on_response_def response_json_def effects_defs gate_state_of_def)
  obtain user where user: "get_prop d ''user'' = Inr user"
    using assms okr data d
    by (cases "get_prop d ''user''")
       (auto simp add: on_response_def response_json_def effects_defs gate_state_of_def)
  obtain r where r: "get_prop user ''role'' = Inr r"
    using assms okr data d user
    by (cases "get_prop user ''role''")
       (auto simp add: on_response_def response_json_def effects_defs gate_state_of_def)
  have req: "r = Some (JStr expected_role)"
    using assms okr data d user r
    by (auto simp add: on_response_def response_json_def effects_defs gate_state_of_def
          split: if_splits)
  obtain u where u: "user = Some u"
    using r by (cases user) auto
  from okr data d user r req u show ?thesis by auto
qed

lemma gate_authorized_conditions:
  assumes "gate_state_of (auth_gate base_url expected_role stringify fetch st) = Authorized"
  shows "\<exists>token response data d u. st ''token'' = Some token \<and> token \<noteq> []
           \<and> fetch (me_request base_url token) = Resolves response \<and> ok response
           \<and> body response = Some data
           \<and> get_prop (Some data) ''data'' = Inr d
           \<and> get_prop d ''user'' = Inr (Some u)
           \<and> get_prop (Some u) ''role'' = Inr (Some (JStr expected_role))"
proof -
  obtain token where token: "st ''token'' = Some token" "token \<noteq> []"
    using assms
    by (cases "st ''token''")
       (auto simp add: auth_gate_def effects_defs gate_state_of_def Let_def split: if_splits)
  let ?req = "me_request base_url token"
  let ?w = "send ?req (start st)"
  have run: "auth_gate base_url expected_role stringify fetch st =
     (case fetch ?req of
        Rejects e \<Rightarrow> catch_handler e ?w
      | Resolves response \<Rightarrow> on_response expected_role stringify response ?w)"
    using token by (rule gate_with_token)
  obtain response where response: "fetch ?req = Resolves response"
    using assms run
    by (cases "fetch ?req") (auto simp add: effects_defs gate_state_of_def)
  have "gate_state_of (on_response expected_role stringify response ?w) = Authorized"
    using assms run response by simp
  moreover have "redirect ?w = None"
    by (simp add: effects_defs)
  ultimately have "ok response \<and> (\<exists>data d u. body response = Some data
           \<and> get_prop (Some data) ''data'' = Inr d
           \<and> get_prop d ''user'' = Inr (Some u)
           \<and> get_prop (Some u) ''role'' = Inr (Some (JStr expected_role)))"
    by (rule on_response_authorized)
  with token response show ?thesis by blast
qed

lemma example_run_authorized:
  "auth_gate ''http://localhost:5000/api'' ''pharmacy'' (\<lambda>u. ''cached'')
      (\<lambda>q. Resolves example_success) example_storage
   = \<lparr>storage = example_storage(''userCache'' \<mapsto> ''cached''), redirect = None, alerts = [],
      console = [], requests = [me_request ''http://localhost:5000/api'' ''abc'']\<rparr>"
  by (simp add: gate_role_match [where token = "''abc''" and response = example_success]
        example_token example_success_ok example_success_body example_user_role)

section \<open>The answers of the session endpoint\<close>

lemma defined_properties_member:
  "(k, v) \<in> set (List.map_filter (\<lambda>(k, v). map_option (Pair k) v) props)
     \<longleftrightarrow> (k, Some v) \<in> set props"
  by (induction props) (auto simp add: map_filter_simps split: option.splits)

lemma serialise_member:
  "serialise props = JObj u \<Longrightarrow> (k, v) \<in> set u \<longleftrightarrow> (k, Some v) \<in> set props"
  using defined_properties_member [of k v props] by (auto simp add: serialise_def)

lemma serialise_key:
  "serialise props = JObj u \<Longrightarrow> k \<in> fst ` set u \<Longrightarrow> \<exists>v. (k, Some v) \<in> set props"
  by (auto simp add: serialise_member)

lemma serialise_is_object: "\<exists>u. serialise props = JObj u"
  by (simp add: serialise_def)

lemma getMe_found:
  "findById (userId req_user) = Inr (Some d) \<Longrightarrow>
   getMe findById req_user =
     Inr (successResponse ''User profile retrieved''
            (JObj [(''user'', serialise (user_view (select_minus_password d)))]))"
  by (simp add: getMe_def)

lemma getMe_missing:
  "findById (userId req_user) = Inr None \<Longrightarrow>
   getMe findById req_user = Inr (errorResponse ''User not found'' 404)"
  by (simp add: getMe_def)

lemma example_getMe:
  "getMe example_findById \<lparr>userId = ''60d5f4'', email = ''john@example.com'', role = ''pharmacy''\<rparr>
     = Inr example_success"
  by (simp add: getMe_def example_defs user_view_def select_minus_password_def
        serialise_def map_filter_simps)

lemma user_view_keys:
  assumes "(k, v) \<in> set (user_view d)"
  shows "k \<in> {''id'', ''name'', ''email'', ''role'', ''phone'', ''address'', ''createdAt'',
               ''pharmacyName'', ''licenseNumber'', ''firstName'', ''vehicleType''}"
    and "k = ''pharmacyName'' \<or> k = ''licenseNumber'' \<Longrightarrow> d ''role'' = Some (JStr ''pharmacy'')"
    and "k = ''firstName'' \<or> k = ''vehicleType'' \<Longrightarrow> d ''role'' = Some (JStr ''delivery'')"
  using assms by (auto simp add: user_view_def split: if_splits)

lemma getMe_ok_found:
  assumes "getMe findById req_user = Inr response" and "ok response"
  shows "\<exists>d. findById (userId req_user) = Inr (Some d)"
  using assms
  by (auto simp add: getMe_def errorResponse_def ok_def split: sum.splits option.splits)






section \<open>Properties of the client gate\<close>

text \<open>
  C1. The outcome of the gate does not depend on the display cache. Two runs from
  storages that differ only in what \<open>userCache\<close> and \<open>displayCache\<close> hold (any value, or
  none), with the same token and the same answers of \<open>fetch\<close>, end in the same state,
  with the same redirect target, the same alert and the same request.
\<close>

theorem outcome_independent_of_cache:
  "gate_state_of (auth_gate base_url expected_role stringify fetch
       (st(''userCache'' := c1, ''displayCache'' := d1)))
   = gate_state_of (auth_gate base_url expected_role stringify fetch
       (st(''userCache'' := c2, ''displayCache'' := d2)))
   \<and> redirect (auth_gate base_url expected_role stringify fetch
       (st(''userCache'' := c1, ''displayCache'' := d1)))
   = redirect (auth_gate base_url expected_role stringify fetch
       (st(''userCache'' := c2, ''displayCache'' := d2)))
   \<and> alerts (auth_gate base_url expected_role stringify fetch
       (st(''userCache'' := c1, ''displayCache'' := d1)))
   = alerts (auth_gate base_url expected_role stringify fetch
       (st(''userCache'' := c2, ''displayCache'' := d2)))
   \<and> requests (auth_gate base_url expected_role stringify fetch
       (st(''userCache'' := c1, ''displayCache'' := d1)))
   = requests (auth_gate base_url expected_role stringify fetch
       (st(''userCache'' := c2, ''displayCache'' := d2)))"
proof -
  have "(st(''userCache'' := c1, ''displayCache'' := d1)) ''token''
      = (st(''userCache'' := c2, ''displayCache'' := d2)) ''token''"
    by simp
  from gate_effects_token_only
         [of "st(''userCache'' := c1, ''displayCache'' := d1)"
             "st(''userCache'' := c2, ''displayCache'' := d2)", OF this]
  show ?thesis
    by (simp add: gate_state_of_def)
qed

text \<open>
  An edited cache that names the role \<open>admin\<close>, on a page for \<open>admin\<close>, with the token
  of a pharmacy account: the run ends as the run with no cache does, in \<open>Redirecting\<close>.
\<close>

theorem outcome_independent_of_cache_witness:
  "gate_state_of (auth_gate ''http://localhost:5000/api'' ''admin'' (\<lambda>u. ''cached'')
       (\<lambda>q. Resolves example_success)
       (example_storage(''userCache'' := Some ''{role:admin}'', ''displayCache'' := None)))
   = gate_state_of (auth_gate ''http://localhost:5000/api'' ''admin'' (\<lambda>u. ''cached'')
       (\<lambda>q. Resolves example_success)
       (example_storage(''userCache'' := None, ''displayCache'' := None)))
   \<and> gate_state_of (auth_gate ''http://localhost:5000/api'' ''admin'' (\<lambda>u. ''cached'')
       (\<lambda>q. Resolves example_success)
       (example_storage(''userCache'' := None, ''displayCache'' := None))) = Redirecting"
proof -
  have "gate_state_of (auth_gate ''http://localhost:5000/api'' ''admin'' (\<lambda>u. ''cached'')
       (\<lambda>q. Resolves example_success)
       (example_storage(''userCache'' := None, ''displayCache'' := None))) = Redirecting"
    by (simp add: gate_role_mismatch [where token = "''abc''" and response = example_success]
          example_token example_success_ok example_success_body example_user_role
          gate_state_of_def)
  then show ?thesis
    using outcome_independent_of_cache
      [of "''http://localhost:5000/api''" "''admin''" "\<lambda>u. ''cached''"
          "\<lambda>q. Resolves example_success" example_storage "Some ''{role:admin}''" None
          None None]
    by simp
qed

text \<open>
  C4. When the session endpoint answers with success and the role it returns is not
  the role the page requires, the gate shows the denial message in an alert (a
  rejected request, for comparison, shows none), clears the storage and with it the
  token, and ends in \<open>Redirecting\<close>, not in \<open>Authorized\<close>.
\<close>

theorem role_mismatch_denied:
  assumes "st ''token'' = Some token" and "token \<noteq> []"
    and "fetch (me_request base_url token) = Resolves response" and "ok response"
    and "body response = Some data"
    and "get_prop (Some data) ''data'' = Inr d"
    and "get_prop d ''user'' = Inr user"
    and "get_prop user ''role'' = Inr r"
    and "r \<noteq> Some (JStr expected_role)"
    and "fetch' (me_request base_url token) = Resolves response'"
    and "\<not> ok response'"
  shows "alerts (auth_gate base_url expected_role stringify fetch st)
           = [denied_message expected_role]
       \<and> alerts (auth_gate base_url expected_role stringify fetch' st) = []
       \<and> storage (auth_gate base_url expected_role stringify fetch st) = Map.empty
       \<and> storage (auth_gate base_url expected_role stringify fetch st) ''token'' = None
       \<and> redirect (auth_gate base_url expected_role stringify fetch st) = Some ''login.html''
       \<and> gate_state_of (auth_gate base_url expected_role stringify fetch st) = Redirecting
       \<and> gate_state_of (auth_gate base_url expected_role stringify fetch st) \<noteq> Authorized"
proof -
  have "auth_gate base_url expected_role stringify fetch st =
           \<lparr>storage = Map.empty, redirect = Some ''login.html'',
            alerts = [denied_message expected_role], console = [],
            requests = [me_request base_url token]\<rparr>"
    using assms(1-9) by (rule gate_role_mismatch)
  moreover have "auth_gate base_url expected_role stringify fetch' st =
           \<lparr>storage = Map.empty, redirect = Some ''login.html'', alerts = [], console = [],
            requests = [me_request base_url token]\<rparr>"
    using assms(1,2,10,11) by (rule gate_not_ok)
  ultimately show ?thesis
    by (simp add: gate_state_of_def)
qed

theorem role_mismatch_denied_witness:
  "example_storage ''token'' = Some ''abc'' \<and> ''abc'' \<noteq> []
   \<and> ok example_success
   \<and> map_of example_user ''role'' \<noteq> Some (JStr ''admin'')
   \<and> \<not> ok (errorResponse ''User not found'' 404)
   \<and> alerts (auth_gate ''http://localhost:5000/api'' ''admin'' (\<lambda>u. ''cached'')
        (\<lambda>q. Resolves example_success) example_storage)
       = [''Access denied. admin role required.'']
   \<and> alerts (auth_gate ''http://localhost:5000/api'' ''admin'' (\<lambda>u. ''cached'')
        (\<lambda>q. Resolves (errorResponse ''User not found'' 404)) example_storage) = []
   \<and> storage (auth_gate ''http://localhost:5000/api'' ''admin'' (\<lambda>u. ''cached'')
        (\<lambda>q. Resolves example_success) example_storage) ''token'' = None
   \<and> gate_state_of (auth_gate ''http://localhost:5000/api'' ''admin'' (\<lambda>u. ''cached'')
        (\<lambda>q. Resolves example_success) example_storage) = Redirecting"
  using role_mismatch_denied
    [of example_storage "''abc''" "\<lambda>q. Resolves example_success"
        "''http://localhost:5000/api''" example_success
        "JObj [(''success'', JBool True), (''message'', JStr ''User profile retrieved''),
               (''data'', JObj [(''user'', JObj example_user)])]"
        "Some (JObj [(''user'', JObj example_user)])" "Some (JObj example_user)"
        "Some (JStr ''pharmacy'')" "''admin''"
        "\<lambda>q. Resolves (errorResponse ''User not found'' 404)"
        "errorResponse ''User not found'' 404" "\<lambda>u. ''cached''"]
  by (simp add: example_token example_success_ok example_success_body example_user_role
        not_found_not_ok denied_message_def)

text \<open>
  C7. When no credential is stored, the gate goes to \<open>Redirecting\<close>, with the login
  page as target, and hands no request to \<open>fetch\<close>; it shows nothing and leaves the
  storage as it was.
\<close>

theorem absent_token_redirects_without_request:
  assumes "st ''token'' = None"
  shows "auth_gate base_url expected_role stringify fetch st =
           \<lparr>storage = st, redirect = Some ''login.html'', alerts = [], console = [],
            requests = []\<rparr>
         \<and> gate_state_of (auth_gate base_url expected_role stringify fetch st) = Redirecting
         \<and> requests (auth_gate base_url expected_role stringify fetch st) = []"
  using assms by (simp add: auth_gate_def effects_defs gate_state_of_def)

theorem absent_token_redirects_without_request_witness:
  "(example_storage(''token'' := None)) ''token'' = None
   \<and> gate_state_of (auth_gate ''http://localhost:5000/api'' ''pharmacy'' (\<lambda>u. ''cached'')
        (\<lambda>q. Resolves example_success) (example_storage(''token'' := None))) = Redirecting
   \<and> requests (auth_gate ''http://localhost:5000/api'' ''pharmacy'' (\<lambda>u. ''cached'')
        (\<lambda>q. Resolves example_success) (example_storage(''token'' := None))) = []"
  using absent_token_redirects_without_request
    [of "example_storage(''token'' := None)" "''http://localhost:5000/api''" "''pharmacy''"
        "\<lambda>u. ''cached''" "\<lambda>q. Resolves example_success"]
  by (simp add: gate_state_of_def)

text \<open>
  C8. When the request to the session endpoint fails at the network level, or is
  answered with a status that is not a success, the gate empties the storage, so
  that neither the token nor a display cache is left, ends in \<open>Redirecting\<close>, and has
  sent the one request only: it does not try again.
\<close>

theorem rejection_clears_and_redirects:
  assumes "st ''token'' = Some token" and "token \<noteq> []"
    and "fetch (me_request base_url token) = Rejects e
         \<or> (fetch (me_request base_url token) = Resolves response \<and> \<not> ok response)"
  shows "storage (auth_gate base_url expected_role stringify fetch st) = Map.empty
       \<and> storage (auth_gate base_url expected_role stringify fetch st) ''token'' = None
       \<and> storage (auth_gate base_url expected_role stringify fetch st) ''userCache'' = None
       \<and> storage (auth_gate base_url expected_role stringify fetch st) ''displayCache'' = None
       \<and> redirect (auth_gate base_url expected_role stringify fetch st) = Some ''login.html''
       \<and> gate_state_of (auth_gate base_url expected_role stringify fetch st) = Redirecting
       \<and> requests (auth_gate base_url expected_role stringify fetch st)
           = [me_request base_url token]"
  using assms(3)
proof
  assume "fetch (me_request base_url token) = Rejects e"
  with assms(1,2) have "auth_gate base_url expected_role stringify fetch st =
           \<lparr>storage = Map.empty, redirect = Some ''login.html'', alerts = [], console = [e],
            requests = [me_request base_url token]\<rparr>"
    by (rule gate_fetch_rejects)
  then show ?thesis by (simp add: gate_state_of_def)
next
  assume "fetch (me_request base_url token) = Resolves response \<and> \<not> ok response"
  with assms(1,2) have "auth_gate base_url expected_role stringify fetch st =
           \<lparr>storage = Map.empty, redirect = Some ''login.html'', alerts = [], console = [],
            requests = [me_request base_url token]\<rparr>"
    by (simp add: gate_not_ok)
  then show ?thesis by (simp add: gate_state_of_def)
qed

text \<open>The network fails; then the server answers 404.\<close>

theorem rejection_clears_and_redirects_witness:
  "example_storage ''token'' = Some ''abc'' \<and> ''abc'' \<noteq> []
   \<and> example_storage ''userCache'' = Some ''stale''
   \<and> storage (auth_gate ''http://localhost:5000/api'' ''pharmacy'' (\<lambda>u. ''cached'')
        (\<lambda>q. Rejects NetworkError) example_storage) = Map.empty
   \<and> gate_state_of (auth_gate ''http://localhost:5000/api'' ''pharmacy'' (\<lambda>u. ''cached'')
        (\<lambda>q. Rejects NetworkError) example_storage) = Redirecting
   \<and> requests (auth_gate ''http://localhost:5000/api'' ''pharmacy'' (\<lambda>u. ''cached'')
        (\<lambda>q. Rejects NetworkError) example_storage)
       = [\<lparr>url = ''http://localhost:5000/api/auth/me'', authorization = ''Bearer abc''\<rparr>]
   \<and> \<not> ok (errorResponse ''User not found'' 404)
   \<and> storage (auth_gate ''http://localhost:5000/api'' ''pharmacy'' (\<lambda>u. ''cached'')
        (\<lambda>q. Resolves (errorResponse ''User not found'' 404)) example_storage) = Map.empty
   \<and> gate_state_of (auth_gate ''http://localhost:5000/api'' ''pharmacy'' (\<lambda>u. ''cached'')
        (\<lambda>q. Resolves (errorResponse ''User not found'' 404)) example_storage) = Redirecting"
  using rejection_clears_and_redirects
    [of example_storage "''abc''" "\<lambda>q. Rejects NetworkError" "''http://localhost:5000/api''"
        NetworkError example_success "''pharmacy''" "\<lambda>u. ''cached''"]
    rejection_clears_and_redirects
    [of example_storage "''abc''" "\<lambda>q. Resolves (errorResponse ''User not found'' 404)"
        "''http://localhost:5000/api''" NetworkError "errorResponse ''User not found'' 404"
        "''pharmacy''" "\<lambda>u. ''cached''"]
  by (simp add: example_token not_found_not_ok me_request_def)
    (simp add: example_storage_def)

text \<open>
  C9. When the session endpoint answers with success and the role it returns is the
  role the page requires, the gate stores the serialised user under \<open>userCache\<close>,
  ends in \<open>Authorized\<close> with no redirect, no alert and no logged error, and the stored
  token is the one it was.
\<close>

theorem role_match_authorized:
  assumes "st ''token'' = Some token" and "token \<noteq> []"
    and "fetch (me_request base_url token) = Resolves response" and "ok response"
    and "body response = Some data"
    and "get_prop (Some data) ''data'' = Inr d"
    and "get_prop d ''user'' = Inr (Some u)"
    and "get_prop (Some u) ''role'' = Inr (Some (JStr expected_role))"
  shows "storage (auth_gate base_url expected_role stringify fetch st)
           = st(''userCache'' \<mapsto> stringify u)
       \<and> storage (auth_gate base_url expected_role stringify fetch st) ''userCache''
           = Some (stringify u)
       \<and> storage (auth_gate base_url expected_role stringify fetch st) ''token'' = Some token
       \<and> redirect (auth_gate base_url expected_role stringify fetch st) = None
       \<and> gate_state_of (auth_gate base_url expected_role stringify fetch st) = Authorized
       \<and> alerts (auth_gate base_url expected_role stringify fetch st) = []
       \<and> console (auth_gate base_url expected_role stringify fetch st) = []
       \<and> requests (auth_gate base_url expected_role stringify fetch st)
           = [me_request base_url token]"
proof -
  have "auth_gate base_url expected_role stringify fetch st =
           \<lparr>storage = st(''userCache'' \<mapsto> stringify u), redirect = None, alerts = [],
            console = [], requests = [me_request base_url token]\<rparr>"
    using assms by (rule gate_role_match)
  then show ?thesis
    using assms(1) by (simp add: gate_state_of_def)
qed

theorem role_match_authorized_witness:
  "example_storage ''token'' = Some ''abc'' \<and> ''abc'' \<noteq> []
   \<and> ok example_success
   \<and> map_of example_user ''role'' = Some (JStr ''pharmacy'')
   \<and> storage (auth_gate ''http://localhost:5000/api'' ''pharmacy'' (\<lambda>u. ''cached'')
        (\<lambda>q. Resolves example_success) example_storage) ''userCache'' = Some ''cached''
   \<and> storage (auth_gate ''http://localhost:5000/api'' ''pharmacy'' (\<lambda>u. ''cached'')
        (\<lambda>q. Resolves example_success) example_storage) ''token'' = Some ''abc''
   \<and> gate_state_of (auth_gate ''http://localhost:5000/api'' ''pharmacy'' (\<lambda>u. ''cached'')
        (\<lambda>q. Resolves example_success) example_storage) = Authorized"
  using role_match_authorized
    [of example_storage "''abc''" "\<lambda>q. Resolves example_success"
        "''http://localhost:5000/api''" example_success
        "JObj [(''success'', JBool True), (''message'', JStr ''User profile retrieved''),
               (''data'', JObj [(''user'', JObj example_user)])]"
        "Some (JObj [(''user'', JObj example_user)])" "JObj example_user"
        "''pharmacy''" "\<lambda>u. ''cached''"]
  by (simp add: example_token example_success_ok example_success_body example_user_role)

text \<open>
  C10. On every path on which the gate rejects after it has sent the request, the
  storage is empty at the end, so that every key is gone, whatever it was: when
  \<open>fetch\<close> rejects (network failure), when the server answers with a status that is
  not a success, when the role of the answer is not the one the page requires, and
  when a successful answer cannot be read. On the success path the storage at the end
  is the storage at the start with \<open>userCache\<close> set: no other key is written.
\<close>

theorem rejection_clears_every_key:
  assumes "st ''token'' = Some token" and "token \<noteq> []"
  shows "(fetch (me_request base_url token) = Rejects e \<longrightarrow>
            storage (auth_gate base_url expected_role stringify fetch st) = Map.empty)
       \<and> (fetch (me_request base_url token) = Resolves response \<and> \<not> ok response \<longrightarrow>
            storage (auth_gate base_url expected_role stringify fetch st) = Map.empty)
       \<and> (fetch (me_request base_url token) = Resolves response \<and> ok response
            \<and> body response = Some data
            \<and> get_prop (Some data) ''data'' = Inr d
            \<and> get_prop d ''user'' = Inr user
            \<and> get_prop user ''role'' = Inr r
            \<and> r \<noteq> Some (JStr expected_role) \<longrightarrow>
            storage (auth_gate base_url expected_role stringify fetch st) = Map.empty)
       \<and> (fetch (me_request base_url token) = Resolves response \<and> ok response
            \<and> (body response = None
                \<or> (body response = Some data
                    \<and> (get_prop (Some data) ''data'' = Inl e
                        \<or> (get_prop (Some data) ''data'' = Inr d
                            \<and> (get_prop d ''user'' = Inl e
                                \<or> (get_prop d ''user'' = Inr user
                                    \<and> get_prop user ''role'' = Inl e)))))) \<longrightarrow>
            storage (auth_gate base_url expected_role stringify fetch st) = Map.empty)
       \<and> (fetch (me_request base_url token) = Resolves response \<and> ok response
            \<and> body response = Some data
            \<and> get_prop (Some data) ''data'' = Inr d
            \<and> get_prop d ''user'' = Inr (Some u)
            \<and> get_prop (Some u) ''role'' = Inr (Some (JStr expected_role)) \<longrightarrow>
            storage (auth_gate base_url expected_role stringify fetch st)
              = st(''userCache'' \<mapsto> stringify u)
            \<and> (\<forall>k. k \<noteq> ''userCache'' \<longrightarrow>
                  storage (auth_gate base_url expected_role stringify fetch st) k = st k))"
proof (intro conjI impI)
  assume "fetch (me_request base_url token) = Rejects e"
  with assms show "storage (auth_gate base_url expected_role stringify fetch st) = Map.empty"
    by (simp add: gate_fetch_rejects)
next
  assume "fetch (me_request base_url token) = Resolves response \<and> \<not> ok response"
  with assms show "storage (auth_gate base_url expected_role stringify fetch st) = Map.empty"
    by (simp add: gate_not_ok)
next
  assume "fetch (me_request base_url token) = Resolves response \<and> ok response
            \<and> body response = Some data
            \<and> get_prop (Some data) ''data'' = Inr d
            \<and> get_prop d ''user'' = Inr user
            \<and> get_prop user ''role'' = Inr r
            \<and> r \<noteq> Some (JStr expected_role)"
  with assms show "storage (auth_gate base_url expected_role stringify fetch st) = Map.empty"
    by (simp add: gate_role_mismatch)
next
  assume "fetch (me_request base_url token) = Resolves response \<and> ok response
            \<and> (body response = None
                \<or> (body response = Some data
                    \<and> (get_prop (Some data) ''data'' = Inl e
                        \<or> (get_prop (Some data) ''data'' = Inr d
                            \<and> (get_prop d ''user'' = Inl e
                                \<or> (get_prop d ''user'' = Inr user
                                    \<and> get_prop user ''role'' = Inl e))))))"
  with assms show "storage (auth_gate base_url expected_role stringify fetch st) = Map.empty"
    by (auto simp add: gate_with_token on_response_def response_json_def effects_defs)
next
  assume a: "fetch (me_request base_url token) = Resolves response \<and> ok response
            \<and> body response = Some data
            \<and> get_prop (Some data) ''data'' = Inr d
            \<and> get_prop d ''user'' = Inr (Some u)
            \<and> get_prop (Some u) ''role'' = Inr (Some (JStr expected_role))"
  with assms have run: "auth_gate base_url expected_role stringify fetch st =
           \<lparr>storage = st(''userCache'' \<mapsto> stringify u), redirect = None, alerts = [],
            console = [], requests = [me_request base_url token]\<rparr>"
    by (simp add: gate_role_match)
  then show "storage (auth_gate base_url expected_role stringify fetch st)
              = st(''userCache'' \<mapsto> stringify u)"
    by simp
  from run show "\<forall>k. k \<noteq> ''userCache'' \<longrightarrow>
                  storage (auth_gate base_url expected_role stringify fetch st) k = st k"
    by simp
qed

text \<open>
  The network fails; the server answers 404; a page for \<open>admin\<close> with the token of a
  pharmacy account: the unrelated key \<open>cart\<close> is gone with the rest. A page for
  \<open>pharmacy\<close> with the same token: \<open>cart\<close> is left as it was.
\<close>

theorem rejection_clears_every_key_witness:
  "example_storage ''token'' = Some ''abc'' \<and> ''abc'' \<noteq> []
   \<and> example_storage ''cart'' = Some ''[]''
   \<and> storage (auth_gate ''http://localhost:5000/api'' ''pharmacy'' (\<lambda>u. ''cached'')
        (\<lambda>q. Rejects NetworkError) example_storage) = Map.empty
   \<and> \<not> ok (errorResponse ''User not found'' 404)
   \<and> storage (auth_gate ''http://localhost:5000/api'' ''pharmacy'' (\<lambda>u. ''cached'')
        (\<lambda>q. Resolves (errorResponse ''User not found'' 404)) example_storage) = Map.empty
   \<and> ok example_success
   \<and> map_of example_user ''role'' = Some (JStr ''pharmacy'')
   \<and> storage (auth_gate ''http://localhost:5000/api'' ''admin'' (\<lambda>u. ''cached'')
        (\<lambda>q. Resolves example_success) example_storage) = Map.empty
   \<and> storage (auth_gate ''http://localhost:5000/api'' ''admin'' (\<lambda>u. ''cached'')
        (\<lambda>q. Resolves example_success) example_storage) ''cart'' = None
   \<and> storage (auth_gate ''http://localhost:5000/api'' ''pharmacy'' (\<lambda>u. ''cached'')
        (\<lambda>q. Resolves example_success) example_storage)
       = example_storage(''userCache'' \<mapsto> ''cached'')
   \<and> storage (auth_gate ''http://localhost:5000/api'' ''pharmacy'' (\<lambda>u. ''cached'')
        (\<lambda>q. Resolves example_success) example_storage) ''cart'' = Some ''[]''"
proof -
  have abc: "''abc'' \<noteq> []" by simp
  have cart: "example_storage ''cart'' = Some ''[]''"
    by (simp add: example_storage_def)
  have b: "get_prop (Some (JObj [(''success'', JBool True),
               (''message'', JStr ''User profile retrieved''),
               (''data'', JObj [(''user'', JObj example_user)])])) ''data''
             = Inr (Some (JObj [(''user'', JObj example_user)]))"
    by simp
  have u: "get_prop (Some (JObj [(''user'', JObj example_user)])) ''user''
             = Inr (Some (JObj example_user))"
    by simp
  have ro: "get_prop (Some (JObj example_user)) ''role'' = Inr (Some (JStr ''pharmacy''))"
    by (simp add: example_user_role)
  note net = rejection_clears_every_key
    [where st = example_storage and token = "''abc''"
       and fetch = "\<lambda>q. Rejects NetworkError" and e = NetworkError
       and base_url = "''http://localhost:5000/api''" and expected_role = "''pharmacy''"
       and stringify = "\<lambda>u. ''cached''", OF example_token abc]
  note nok = rejection_clears_every_key
    [where st = example_storage and token = "''abc''"
       and fetch = "\<lambda>q. Resolves (errorResponse ''User not found'' 404)"
       and response = "errorResponse ''User not found'' 404"
       and base_url = "''http://localhost:5000/api''" and expected_role = "''pharmacy''"
       and stringify = "\<lambda>u. ''cached''", OF example_token abc]
  note mis = rejection_clears_every_key
    [where st = example_storage and token = "''abc''"
       and fetch = "\<lambda>q. Resolves example_success" and response = example_success
       and data = "JObj [(''success'', JBool True),
               (''message'', JStr ''User profile retrieved''),
               (''data'', JObj [(''user'', JObj example_user)])]"
       and d = "Some (JObj [(''user'', JObj example_user)])"
       and user = "Some (JObj example_user)" and r = "Some (JStr ''pharmacy'')"
       and base_url = "''http://localhost:5000/api''" and expected_role = "''admin''"
       and stringify = "\<lambda>u. ''cached''", OF example_token abc]
  note suc = rejection_clears_every_key
    [where st = example_storage and token = "''abc''"
       and fetch = "\<lambda>q. Resolves example_success" and response = example_success
       and data = "JObj [(''success'', JBool True),
               (''message'', JStr ''User profile retrieved''),
               (''data'', JObj [(''user'', JObj example_user)])]"
       and d = "Some (JObj [(''user'', JObj example_user)])"
       and u = "JObj example_user"
       and base_url = "''http://localhost:5000/api''" and expected_role = "''pharmacy''"
       and stringify = "\<lambda>u. ''cached''", OF example_token abc]
  have 1: "storage (auth_gate ''http://localhost:5000/api'' ''pharmacy'' (\<lambda>u. ''cached'')
        (\<lambda>q. Rejects NetworkError) example_storage) = Map.empty"
    using net by simp
  have 2: "storage (auth_gate ''http://localhost:5000/api'' ''pharmacy'' (\<lambda>u. ''cached'')
        (\<lambda>q. Resolves (errorResponse ''User not found'' 404)) example_storage) = Map.empty"
    using nok not_found_not_ok by simp
  have 3: "storage (auth_gate ''http://localhost:5000/api'' ''admin'' (\<lambda>u. ''cached'')
        (\<lambda>q. Resolves example_success) example_storage) = Map.empty"
    using mis example_success_ok example_success_body b u ro by simp
  have 4: "storage (auth_gate ''http://localhost:5000/api'' ''pharmacy'' (\<lambda>u. ''cached'')
        (\<lambda>q. Resolves example_success) example_storage)
       = example_storage(''userCache'' \<mapsto> ''cached'')"
    using suc example_success_ok example_success_body b u ro by simp
  show ?thesis
    using 1 2 3 4 cart example_token example_success_ok example_user_role not_found_not_ok
    by simp
qed

text \<open>
  C3, as the claim states it: the check holds the page back until the gate has
  reached \<open>Authorized\<close>. It does not: with a token stored, the call sends the request
  and returns to the page at \<open>await fetch(...)\<close>, in state \<open>Checking\<close>, with no redirect
  issued and the answer of the session endpoint still to come.
\<close>

theorem call_returns_while_checking:
  "auth_gate_call ''http://localhost:5000/api'' example_storage
     = Pending \<lparr>url = ''http://localhost:5000/api/auth/me'', authorization = ''Bearer abc''\<rparr>
         \<lparr>storage = example_storage, redirect = None, alerts = [], console = [],
          requests = [\<lparr>url = ''http://localhost:5000/api/auth/me'',
                       authorization = ''Bearer abc''\<rparr>]\<rparr>
   \<and> call_state (auth_gate_call ''http://localhost:5000/api'' example_storage) = Checking
   \<and> call_state (auth_gate_call ''http://localhost:5000/api'' example_storage) \<noteq> Authorized"
  by (simp add: call_with_token [where token = "''abc''"] example_token call_state_def
        me_request_def)

text \<open>
  C3, amended. A run of the gate is its call followed, when the call returned at the
  \<open>await\<close>, by the part that resumes on the settled \<open>fetch\<close>. The call never returns
  in \<open>Authorized\<close>; with a token stored it returns in \<open>Checking\<close>, the request sent and
  no redirect issued, so that the suspension is of the gate function and not of the
  page. A run ends in \<open>Authorized\<close> only when the session endpoint has answered with
  success and the role of the answer is the one the page requires.
\<close>

theorem authorized_only_after_role_check:
  "auth_gate base_url expected_role stringify fetch st =
     (case auth_gate_call base_url st of
        Completed w \<Rightarrow> w
      | Pending req w \<Rightarrow> auth_gate_resume expected_role stringify (fetch req) w)
   \<and> call_state (auth_gate_call base_url st) \<noteq> Authorized
   \<and> (st ''token'' = Some token \<and> token \<noteq> [] \<longrightarrow>
        auth_gate_call base_url st =
          Pending (me_request base_url token)
            \<lparr>storage = st, redirect = None, alerts = [], console = [],
             requests = [me_request base_url token]\<rparr>
        \<and> call_state (auth_gate_call base_url st) = Checking)
   \<and> (gate_state_of (auth_gate base_url expected_role stringify fetch st) = Authorized \<longrightarrow>
        (\<exists>token response data d u. st ''token'' = Some token \<and> token \<noteq> []
           \<and> fetch (me_request base_url token) = Resolves response \<and> ok response
           \<and> body response = Some data
           \<and> get_prop (Some data) ''data'' = Inr d
           \<and> get_prop d ''user'' = Inr (Some u)
           \<and> get_prop (Some u) ''role'' = Inr (Some (JStr expected_role))))"
proof (intro conjI impI)
  show "auth_gate base_url expected_role stringify fetch st =
     (case auth_gate_call base_url st of
        Completed w \<Rightarrow> w
      | Pending req w \<Rightarrow> auth_gate_resume expected_role stringify (fetch req) w)"
    by (rule auth_gate_split)
  show "call_state (auth_gate_call base_url st) \<noteq> Authorized"
    by (rule call_never_authorized)
next
  assume t: "st ''token'' = Some token \<and> token \<noteq> []"
  then show "auth_gate_call base_url st =
          Pending (me_request base_url token)
            \<lparr>storage = st, redirect = None, alerts = [], console = [],
             requests = [me_request base_url token]\<rparr>"
    by (simp add: call_with_token)
  from t show "call_state (auth_gate_call base_url st) = Checking"
    by (simp add: call_with_token call_state_def)
next
  assume "gate_state_of (auth_gate base_url expected_role stringify fetch st) = Authorized"
  then show "\<exists>token response data d u. st ''token'' = Some token \<and> token \<noteq> []
           \<and> fetch (me_request base_url token) = Resolves response \<and> ok response
           \<and> body response = Some data
           \<and> get_prop (Some data) ''data'' = Inr d
           \<and> get_prop d ''user'' = Inr (Some u)
           \<and> get_prop (Some u) ''role'' = Inr (Some (JStr expected_role))"
    by (rule gate_authorized_conditions)
qed

theorem authorized_only_after_role_check_witness:
  "example_storage ''token'' = Some ''abc'' \<and> ''abc'' \<noteq> []
   \<and> gate_state_of (auth_gate ''http://localhost:5000/api'' ''pharmacy'' (\<lambda>u. ''cached'')
        (\<lambda>q. Resolves example_success) example_storage) = Authorized
   \<and> call_state (auth_gate_call ''http://localhost:5000/api'' example_storage) = Checking
   \<and> auth_gate ''http://localhost:5000/api'' ''pharmacy'' (\<lambda>u. ''cached'')
        (\<lambda>q. Resolves example_success) example_storage
      = (case auth_gate_call ''http://localhost:5000/api'' example_storage of
           Completed w \<Rightarrow> w
         | Pending req w \<Rightarrow>
             auth_gate_resume ''pharmacy'' (\<lambda>u. ''cached'') (Resolves example_success) w)
   \<and> (\<exists>token response data d u. example_storage ''token'' = Some token \<and> token \<noteq> []
           \<and> (\<lambda>q. Resolves example_success) (me_request ''http://localhost:5000/api'' token)
               = Resolves response
           \<and> ok response
           \<and> body response = Some data
           \<and> get_prop (Some data) ''data'' = Inr d
           \<and> get_prop d ''user'' = Inr (Some u)
           \<and> get_prop (Some u) ''role'' = Inr (Some (JStr ''pharmacy'')))"
proof -
  have aut: "gate_state_of (auth_gate ''http://localhost:5000/api'' ''pharmacy'' (\<lambda>u. ''cached'')
        (\<lambda>q. Resolves example_success) example_storage) = Authorized"
    by (simp add: example_run_authorized gate_state_of_def)
  have abc: "''abc'' \<noteq> []" by simp
  from authorized_only_after_role_check
         [of "''http://localhost:5000/api''" "''pharmacy''" "\<lambda>u. ''cached''"
             "\<lambda>q. Resolves example_success" example_storage "''abc''"]
       aut example_token abc
  show ?thesis by (simp add: call_state_def)
qed

section \<open>Properties of the session endpoint\<close>

text \<open>
  C5. When the identity store has no record for the identifier of the verified
  credential, \<open>getMe\<close> answers with the failure 404 \<open>User not found\<close>: a status that is
  not a success, a body without user data, and the same answer whatever e-mail and
  role the credential carries. The gate that receives this answer empties the storage
  and ends in \<open>Redirecting\<close>.
\<close>

theorem missing_identity_rejected:
  assumes "findById (userId req_user) = Inr None"
    and "st ''token'' = Some token" and "token \<noteq> []"
    and "fetch (me_request base_url token) = Resolves (errorResponse ''User not found'' 404)"
  shows "getMe findById req_user = Inr (errorResponse ''User not found'' 404)
       \<and> \<not> ok (errorResponse ''User not found'' 404)
       \<and> get_prop (body (errorResponse ''User not found'' 404)) ''data'' = Inr None
       \<and> getMe findById (req_user\<lparr>email := e', role := r'\<rparr>) = getMe findById req_user
       \<and> storage (auth_gate base_url expected_role stringify fetch st) = Map.empty
       \<and> gate_state_of (auth_gate base_url expected_role stringify fetch st) = Redirecting"
proof -
  have "auth_gate base_url expected_role stringify fetch st =
           \<lparr>storage = Map.empty, redirect = Some ''login.html'', alerts = [], console = [],
            requests = [me_request base_url token]\<rparr>"
    using assms(2,3,4) not_found_not_ok by (rule gate_not_ok)
  moreover have "getMe findById req_user = Inr (errorResponse ''User not found'' 404)"
    using assms(1) by (rule getMe_missing)
  moreover have "getMe findById (req_user\<lparr>email := e', role := r'\<rparr>) = getMe findById req_user"
    by (simp add: getMe_def)
  moreover have "get_prop (body (errorResponse ''User not found'' 404)) ''data'' = Inr None"
    by (simp add: errorResponse_def)
  ultimately show ?thesis
    by (simp add: gate_state_of_def not_found_not_ok)
qed

theorem missing_identity_rejected_witness:
  "example_findById (userId \<lparr>userId = ''gone'', email = ''old@example.com'', role = ''admin''\<rparr>)
     = Inr None
   \<and> example_storage ''token'' = Some ''abc'' \<and> ''abc'' \<noteq> []
   \<and> getMe example_findById \<lparr>userId = ''gone'', email = ''old@example.com'', role = ''admin''\<rparr>
       = Inr \<lparr>status = 404,
              body = Some (JObj [(''success'', JBool False), (''message'', JStr ''User not found'')])\<rparr>
   \<and> gate_state_of (auth_gate ''http://localhost:5000/api'' ''admin'' (\<lambda>u. ''cached'')
        (\<lambda>q. Resolves (errorResponse ''User not found'' 404)) example_storage) = Redirecting
   \<and> storage (auth_gate ''http://localhost:5000/api'' ''admin'' (\<lambda>u. ''cached'')
        (\<lambda>q. Resolves (errorResponse ''User not found'' 404)) example_storage) = Map.empty"
  using missing_identity_rejected
    [of example_findById "\<lparr>userId = ''gone'', email = ''old@example.com'', role = ''admin''\<rparr>"
        example_storage "''abc''" "\<lambda>q. Resolves (errorResponse ''User not found'' 404)"
        "''http://localhost:5000/api''" "''x''" "''y''" "''admin''" "\<lambda>u. ''cached''"]
  by (simp add: example_token example_findById_def) (simp add: errorResponse_def)

text \<open>
  C6. Every successful answer of \<open>getMe\<close> carries a user object whose properties are
  among the eleven that the controller names: \<open>password\<close> is not one of them.
  \<open>pharmacyName\<close> and \<open>licenseNumber\<close> occur only when the role of the record is
  \<open>pharmacy\<close>, \<open>firstName\<close> and \<open>vehicleType\<close> only when it is \<open>delivery\<close>; for every
  other role none of the four occurs.
\<close>

theorem projection_by_role:
  assumes "getMe findById req_user = Inr response" and "ok response"
  shows "\<exists>d u. findById (userId req_user) = Inr (Some d)
           \<and> response = successResponse ''User profile retrieved'' (JObj [(''user'', JObj u)])
           \<and> ''password'' \<notin> fst ` set u
           \<and> fst ` set u \<subseteq> {''id'', ''name'', ''email'', ''role'', ''phone'', ''address'',
                 ''createdAt'', ''pharmacyName'', ''licenseNumber'', ''firstName'',
                 ''vehicleType''}
           \<and> (''pharmacyName'' \<in> fst ` set u \<or> ''licenseNumber'' \<in> fst ` set u
                 \<longrightarrow> d ''role'' = Some (JStr ''pharmacy''))
           \<and> (''firstName'' \<in> fst ` set u \<or> ''vehicleType'' \<in> fst ` set u
                 \<longrightarrow> d ''role'' = Some (JStr ''delivery''))"
proof -
  from getMe_ok_found [OF assms] obtain d where d: "findById (userId req_user) = Inr (Some d)" ..
  let ?d = "select_minus_password d"
  obtain u where u: "serialise (user_view ?d) = JObj u"
    using serialise_is_object by blast
  have role: "?d ''role'' = d ''role''"
    by (simp add: select_minus_password_def)
  have resp: "response = successResponse ''User profile retrieved'' (JObj [(''user'', JObj u)])"
    using getMe_found [of findById req_user d, OF d] assms(1) u by simp
  have keys: "\<And>k. k \<in> fst ` set u \<Longrightarrow> \<exists>v. (k, Some v) \<in> set (user_view ?d)"
    using serialise_key [OF u] by blast
  have allowed: "fst ` set u \<subseteq> {''id'', ''name'', ''email'', ''role'', ''phone'', ''address'',
                 ''createdAt'', ''pharmacyName'', ''licenseNumber'', ''firstName'',
                 ''vehicleType''}"
  proof
    fix k assume "k \<in> fst ` set u"
    then obtain v where "(k, Some v) \<in> set (user_view ?d)" using keys by blast
    then show "k \<in> {''id'', ''name'', ''email'', ''role'', ''phone'', ''address'',
                 ''createdAt'', ''pharmacyName'', ''licenseNumber'', ''firstName'',
                 ''vehicleType''}"
      by (rule user_view_keys(1))
  qed
  have nopw: "''password'' \<notin> fst ` set u"
    using allowed by auto
  have ph: "''pharmacyName'' \<in> fst ` set u \<or> ''licenseNumber'' \<in> fst ` set u
              \<longrightarrow> d ''role'' = Some (JStr ''pharmacy'')"
  proof
    assume "''pharmacyName'' \<in> fst ` set u \<or> ''licenseNumber'' \<in> fst ` set u"
    then obtain k v where "k = ''pharmacyName'' \<or> k = ''licenseNumber''"
      and "(k, Some v) \<in> set (user_view ?d)"
      using keys by blast
    then show "d ''role'' = Some (JStr ''pharmacy'')"
      using user_view_keys(2) [of k "Some v" ?d] role by simp
  qed
  have dl: "''firstName'' \<in> fst ` set u \<or> ''vehicleType'' \<in> fst ` set u
              \<longrightarrow> d ''role'' = Some (JStr ''delivery'')"
  proof
    assume "''firstName'' \<in> fst ` set u \<or> ''vehicleType'' \<in> fst ` set u"
    then obtain k v where "k = ''firstName'' \<or> k = ''vehicleType''"
      and "(k, Some v) \<in> set (user_view ?d)"
      using keys by blast
    then show "d ''role'' = Some (JStr ''delivery'')"
      using user_view_keys(3) [of k "Some v" ?d] role by simp
  qed
  from d resp nopw allowed ph dl show ?thesis by blast
qed

theorem projection_by_role_witness:
  "getMe example_findById
      \<lparr>userId = ''60d5f4'', email = ''john@example.com'', role = ''pharmacy''\<rparr>
     = Inr example_success
   \<and> ok example_success
   \<and> example_document ''password'' = Some (JStr ''bcrypt-hash'')
   \<and> example_document ''firstName'' = Some (JStr ''John'')
   \<and> (\<exists>d u. example_findById
                (userId \<lparr>userId = ''60d5f4'', email = ''john@example.com'', role = ''pharmacy''\<rparr>)
              = Inr (Some d)
           \<and> example_success
               = successResponse ''User profile retrieved'' (JObj [(''user'', JObj u)])
           \<and> ''password'' \<notin> fst ` set u
           \<and> fst ` set u \<subseteq> {''id'', ''name'', ''email'', ''role'', ''phone'', ''address'',
                 ''createdAt'', ''pharmacyName'', ''licenseNumber'', ''firstName'',
                 ''vehicleType''}
           \<and> (''pharmacyName'' \<in> fst ` set u \<or> ''licenseNumber'' \<in> fst ` set u
                 \<longrightarrow> d ''role'' = Some (JStr ''pharmacy''))
           \<and> (''firstName'' \<in> fst ` set u \<or> ''vehicleType'' \<in> fst ` set u
                 \<longrightarrow> d ''role'' = Some (JStr ''delivery'')))"
proof -
  have g: "getMe example_findById
      \<lparr>userId = ''60d5f4'', email = ''john@example.com'', role = ''pharmacy''\<rparr>
     = Inr example_success"
    by (rule example_getMe)
  have doc: "example_document ''password'' = Some (JStr ''bcrypt-hash'')"
    "example_document ''firstName'' = Some (JStr ''John'')"
    by (simp_all add: example_document_def)
  from projection_by_role
         [of example_findById
             "\<lparr>userId = ''60d5f4'', email = ''john@example.com'', role = ''pharmacy''\<rparr>"
             example_success, OF g example_success_ok]
       g example_success_ok doc
  show ?thesis by blast
qed



end
